theory Spec2Isabelle
  imports Main
begin

section \<open>NULL ordering for keyset pagination (sqlakeyset/nulls.py)\<close>

text \<open>
  A shallow embedding of the three functions of \<^verbatim>\<open>nulls.py\<close>:
  \<^verbatim>\<open>is_nulls_last_default\<close>, \<^verbatim>\<open>build_comparison\<close> and
  \<^verbatim>\<open>_might_be_nullable\<close>. Python exceptions are values of the type
  \<open>error\<close>; the calls of \<^verbatim>\<open>warnings.warn\<close> are recorded in a log that
  every function takes and returns.
\<close>

subsection \<open>Python values, exceptions and the warning log\<close>

text \<open>Python values that reach the module as comparison values; \<open>PNone\<close> is \<^verbatim>\<open>None\<close>.\<close>

datatype pyval = PNone | PBool bool | PInt int | PStr string

text \<open>
  The exceptions of the module: the three that \<^verbatim>\<open>_might_be_nullable\<close> catches,
  and whatever a column type's bind processor raises.
\<close>

datatype error = AttributeError | IndexError | KeyError | BindError string

text \<open>A SQL dialect object; the module reads only its \<^verbatim>\<open>name\<close>.\<close>

record dialect =
  name :: string

type_synonym warnings = "string list"

text \<open>\<^verbatim>\<open>warn(msg)\<close>: one more event at the end of the log.\<close>

definition warn :: "string \<Rightarrow> warnings \<Rightarrow> warnings" where
  "warn msg ws = ws @ [msg]"

subsection \<open>The table of defaults and its lookup\<close>

text \<open>The dictionary \<^verbatim>\<open>NULLS_LAST_FOR_ASC_BY_DEFAULT\<close>, in the order it is written.\<close>

definition NULLS_LAST_FOR_ASC_BY_DEFAULT :: "(string \<times> bool) list" where
  "NULLS_LAST_FOR_ASC_BY_DEFAULT =
     [(''postgresql'', True),
      (''oracle'', True),
      (''mysql'', False),
      (''mssql'', False),
      (''sqlite'', False)]"

text \<open>
  \<^verbatim>\<open>dialect and dialect.name or None\<close>: \<^verbatim>\<open>None\<close> when the dialect is
  \<^verbatim>\<open>None\<close> or its name is the empty string (both are falsy), the name otherwise.
\<close>

definition dialect_key :: "dialect option \<Rightarrow> string option" where
  "dialect_key dialect =
     (case dialect of
        None \<Rightarrow> None
      | Some d \<Rightarrow> (if name d = [] then None else Some (name d)))"

text \<open>\<^verbatim>\<open>dict.get(key)\<close> on a dictionary with string keys: \<^verbatim>\<open>None\<close> is never a key.\<close>

definition dict_get :: "(string \<times> 'v) list \<Rightarrow> string option \<Rightarrow> 'v option" where
  "dict_get d k = (case k of None \<Rightarrow> None | Some s \<Rightarrow> map_of d s)"

text \<open>The f-string of the warning, from the dialect's name.\<close>

definition unknown_dialect_message :: "string \<Rightarrow> string" where
  "unknown_dialect_message n =
     ''SQL dialect '' @ n @ '' is not known to sqlakeyset. '' @
     ''Assuming the same behaviour as MySQL/SQLite/MSSQL. '' @
     ''If any of your sort columns are nullable, '' @
     ''you may get results in the wrong order.''"

text \<open>
  \<^verbatim>\<open>is_nulls_last_default(dialect=None)\<close>. When the lookup gives \<^verbatim>\<open>None\<close>,
  the message is built first, and it reads \<^verbatim>\<open>dialect.name\<close>: on the dialect
  \<^verbatim>\<open>None\<close> that raises \<^verbatim>\<open>AttributeError\<close> before \<^verbatim>\<open>warn\<close> is called.
\<close>

definition is_nulls_last_default :: "dialect option \<Rightarrow> warnings \<Rightarrow> (error + bool) \<times> warnings" where
  "is_nulls_last_default dialect ws =
     (case dict_get NULLS_LAST_FOR_ASC_BY_DEFAULT (dialect_key dialect) of
        Some v \<Rightarrow> (Inr v, ws)
      | None \<Rightarrow>
          (case dialect of
             None \<Rightarrow> (Inl AttributeError, ws)
           | Some d \<Rightarrow> (Inr False, warn (unknown_dialect_message (name d)) ws)))"

subsection \<open>Column expressions and the terms built from them\<close>

text \<open>
  A column type: \<open>process_bind_param\<close> is \<open>None\<close> when the type has no such attribute
  (a plain type), and the method of a custom type otherwise. The method takes the value
  and the dialect, and may raise.
\<close>

record sqltype =
  type_name :: string
  process_bind_param :: "(pyval \<Rightarrow> dialect option \<Rightarrow> error + pyval) option"

text \<open>A column expression: what it denotes, and its \<^verbatim>\<open>type\<close>.\<close>

record columnexpr =
  expr_name :: string
  col_type :: sqltype

text \<open>
  The objects that \<^verbatim>\<open>build_comparison\<close> puts in its two lists: the column
  expression itself, a plain Python value, \<^verbatim>\<open>cast(v, type)\<close>,
  \<^verbatim>\<open>expr == None\<close> and \<^verbatim>\<open>case([(cond, then)], else_=other)\<close>.
\<close>

datatype sqlexpr =
    Column columnexpr
  | Literal pyval
  | Cast pyval sqltype
  | IsNull sqlexpr
  | Case "(sqlexpr \<times> sqlexpr) list" sqlexpr

text \<open>
  Lines 55 to 58: the type's \<^verbatim>\<open>process_bind_param\<close>, or the identity when
  reading the attribute raises \<^verbatim>\<open>AttributeError\<close>.
\<close>

definition bind_processor :: "columnexpr \<Rightarrow> pyval \<Rightarrow> dialect option \<Rightarrow> error + pyval" where
  "bind_processor columnexpr =
     (case process_bind_param (col_type columnexpr) of
        Some p \<Rightarrow> p
      | None \<Rightarrow> (\<lambda>v d. Inr v))"

text \<open>
  \<^verbatim>\<open>build_comparison(columnexpr, value, dialect, nullslast=None, ascending=True)\<close>.
  An exception of the default lookup or of the bind processor ends the call.
\<close>

definition build_comparison ::
  "columnexpr \<Rightarrow> pyval \<Rightarrow> dialect option \<Rightarrow> bool option \<Rightarrow> bool \<Rightarrow> warnings
     \<Rightarrow> (error + sqlexpr list \<times> sqlexpr list) \<times> warnings" where
  "build_comparison columnexpr value dialect nullslast ascending ws =
     (case (case nullslast of
              None \<Rightarrow> is_nulls_last_default dialect ws
            | Some b \<Rightarrow> (Inr b, ws)) of
        (Inl e, ws1) \<Rightarrow> (Inl e, ws1)
      | (Inr nullslast1, ws1) \<Rightarrow>
          (case bind_processor columnexpr value dialect of
             Inl e \<Rightarrow> (Inl e, ws1)
           | Inr value1 \<Rightarrow>
               (let BLANK = Cast (PStr ''0'') (col_type columnexpr);
                    (null, notnull) = (if nullslast1 then (1, 0) else (0, 1));
                    flag_col = Case [(IsNull (Column columnexpr), Literal (PInt null))]
                                 (Literal (PInt notnull));
                    flag_val = Literal (PInt (if value1 = PNone then null else notnull));
                    val_col = Case [(IsNull (Column columnexpr), BLANK)] (Column columnexpr);
                    val_val = (if value1 = PNone then BLANK else Literal value1);
                    (col, val) = ([flag_col, val_col], [flag_val, val_val])
                in (Inr (if \<not> ascending then (val, col) else (col, val)), ws1))))"

subsection \<open>The nullability check\<close>

text \<open>
  What \<^verbatim>\<open>_might_be_nullable\<close> reads of its argument: the attribute
  \<^verbatim>\<open>nullable\<close>, and \<^verbatim>\<open>property.columns\<close>, a sequence of such objects.
  \<open>None\<close> is an attribute that is missing.
\<close>

datatype descriptor = Descriptor (nullable: "bool option") (property: "mapped_property option")
  and mapped_property = MappedProperty (columns: "descriptor list option")

definition getattr :: "'a option \<Rightarrow> error + 'a" where
  "getattr a = (case a of None \<Rightarrow> Inl AttributeError | Some v \<Rightarrow> Inr v)"

text \<open>\<^verbatim>\<open>xs[0]\<close>.\<close>

definition getitem0 :: "'a list \<Rightarrow> error + 'a" where
  "getitem0 xs = (case xs of [] \<Rightarrow> Inl IndexError | x # _ \<Rightarrow> Inr x)"

text \<open>
  The condition of the \<^verbatim>\<open>if\<close>:
  \<^verbatim>\<open>not x.nullable or x.property.columns[0].nullable\<close>, left to right, the
  right operand only when the left one is false.
\<close>

definition nullable_condition :: "descriptor \<Rightarrow> error + bool" where
  "nullable_condition x =
     (case getattr (nullable x) of
        Inl e \<Rightarrow> Inl e
      | Inr n \<Rightarrow>
          if \<not> n then Inr True
          else
            (case getattr (property x) of
               Inl e \<Rightarrow> Inl e
             | Inr p \<Rightarrow>
                 (case getattr (columns p) of
                    Inl e \<Rightarrow> Inl e
                  | Inr cs \<Rightarrow>
                      (case getitem0 cs of
                         Inl e \<Rightarrow> Inl e
                       | Inr c0 \<Rightarrow> getattr (nullable c0)))))"

text \<open>
  \<^verbatim>\<open>_might_be_nullable(x)\<close>: \<^verbatim>\<open>True\<close> when the condition holds; when it does
  not, or when it raises one of the three exceptions caught, the function falls through
  to \<^verbatim>\<open>return False\<close>. Any other exception leaves the function.
\<close>

definition might_be_nullable :: "descriptor \<Rightarrow> error + bool" where
  "might_be_nullable x =
     (case nullable_condition x of
        Inr b \<Rightarrow> (if b then Inr True else Inr False)
      | Inl e \<Rightarrow>
          (if e = AttributeError \<or> e = IndexError \<or> e = KeyError then Inr False
           else Inl e))"

subsection \<open>Two columns to evaluate the functions on\<close>

text \<open>A column of a plain type: the type has no \<^verbatim>\<open>process_bind_param\<close>.\<close>

definition id_column :: columnexpr where
  "id_column =
     \<lparr>expr_name = ''id'',
      col_type = \<lparr>type_name = ''INTEGER'', process_bind_param = None\<rparr>\<rparr>"

text \<open>
  A column of a custom type whose bind processor stores a missing value as the number 0
  and passes every other value through.
\<close>

definition zero_if_none :: "pyval \<Rightarrow> dialect option \<Rightarrow> error + pyval" where
  "zero_if_none v d = Inr (if v = PNone then PInt 0 else v)"

definition zero_if_none_type :: sqltype where
  "zero_if_none_type = \<lparr>type_name = ''ZeroIfNone'', process_bind_param = Some zero_if_none\<rparr>"

definition score_column :: columnexpr where
  "score_column = \<lparr>expr_name = ''score'', col_type = zero_if_none_type\<rparr>"

section \<open>Evaluation and the shape of a result\<close>

lemmas eval_defs =
  build_comparison_def bind_processor_def is_nulls_last_default_def
  NULLS_LAST_FOR_ASC_BY_DEFAULT_def dict_get_def dialect_key_def warn_def Let_def

text \<open>
  Every call that returns went through the bind processor, and its two lists are the
  row-side pair and the target-side pair, in the order the direction gives. Here \<open>r\<close>
  is the resolved placement: the argument \<^verbatim>\<open>nullslast\<close> when it is given, the
  engine's default otherwise.
\<close>

lemma build_comparison_returns:
  assumes "build_comparison c v d nl asc ws = (Inr (col, val), ws')"
    and "nl = Some r \<or> nl = None \<and> fst (is_nulls_last_default d ws) = Inr r"
  shows "\<exists>pv. bind_processor c v d = Inr pv \<and>
     (if asc then col else val) =
       [Case [(IsNull (Column c), Literal (PInt (if r then 1 else 0)))]
          (Literal (PInt (if r then 0 else 1))),
        Case [(IsNull (Column c), Cast (PStr ''0'') (col_type c))] (Column c)] \<and>
     (if asc then val else col) =
       [Literal (PInt (if pv = PNone then (if r then 1 else 0) else (if r then 0 else 1))),
        (if pv = PNone then Cast (PStr ''0'') (col_type c) else Literal pv)]"
  using assms
  by (auto simp: build_comparison_def Let_def
      split: option.splits sum.splits prod.splits if_splits)

text \<open>
  When the placement resolves to \<open>r\<close> and the bind processor gives \<open>pv\<close>, the call
  returns, and its two lists are the row-side pair and the target-side pair built from
  \<open>r\<close> and \<open>pv\<close>, exchanged when the direction is descending.
\<close>

lemma build_comparison_result:
  assumes "nl = Some r \<or> nl = None \<and> fst (is_nulls_last_default d ws) = Inr r"
    and "bind_processor c v d = Inr pv"
  shows "fst (build_comparison c v d nl asc ws) =
     Inr ((if asc then id else prod.swap)
       ([Case [(IsNull (Column c), Literal (PInt (if r then 1 else 0)))]
           (Literal (PInt (if r then 0 else 1))),
         Case [(IsNull (Column c), Cast (PStr ''0'') (col_type c))] (Column c)],
        [Literal (PInt (if pv = PNone then (if r then 1 else 0) else (if r then 0 else 1))),
         (if pv = PNone then Cast (PStr ''0'') (col_type c) else Literal pv)]))"
proof -
  obtain ws1 where res: "(case nl of None \<Rightarrow> is_nulls_last_default d ws | Some b \<Rightarrow> (Inr b, ws)) = (Inr r, ws1)"
    using assms(1) by (cases "is_nulls_last_default d ws") auto
  show ?thesis
    unfolding build_comparison_def res
    by (cases r; cases asc; cases "pv = PNone") (simp_all add: assms(2) Let_def)
qed

section \<open>The default NULL placement of an engine\<close>

text \<open>
  Claim C1. The table has exactly the five known engines, and the lookup returns the boolean
  written for each of them: true (NULLS LAST on ascending order) for postgresql and
  oracle, false (NULLS FIRST) for mysql, mssql and sqlite. No warning is emitted.
\<close>

theorem known_engine_defaults:
  "map fst NULLS_LAST_FOR_ASC_BY_DEFAULT =
     [''postgresql'', ''oracle'', ''mysql'', ''mssql'', ''sqlite''] \<and>
   is_nulls_last_default (Some \<lparr>name = ''postgresql''\<rparr>) ws = (Inr True, ws) \<and>
   is_nulls_last_default (Some \<lparr>name = ''oracle''\<rparr>) ws = (Inr True, ws) \<and>
   is_nulls_last_default (Some \<lparr>name = ''mysql''\<rparr>) ws = (Inr False, ws) \<and>
   is_nulls_last_default (Some \<lparr>name = ''mssql''\<rparr>) ws = (Inr False, ws) \<and>
   is_nulls_last_default (Some \<lparr>name = ''sqlite''\<rparr>) ws = (Inr False, ws)"
  by (simp add: is_nulls_last_default_def NULLS_LAST_FOR_ASC_BY_DEFAULT_def
      dict_get_def dialect_key_def)

text \<open>
  Claim C2. For a dialect whose name is not a key of the table, the lookup returns false
  (NULLS FIRST), adds exactly one warning to the log, the message for that name, and
  does not raise.
\<close>

theorem unknown_engine_default:
  assumes "name d \<notin> set (map fst NULLS_LAST_FOR_ASC_BY_DEFAULT)"
  shows "is_nulls_last_default (Some d) ws =
           (Inr False, ws @ [unknown_dialect_message (name d)])"
proof -
  from assms have "map_of NULLS_LAST_FOR_ASC_BY_DEFAULT (name d) = None"
    by (simp add: map_of_eq_None_iff)
  then have "dict_get NULLS_LAST_FOR_ASC_BY_DEFAULT (dialect_key (Some d)) = None"
    by (simp add: dict_get_def dialect_key_def)
  then show ?thesis
    by (simp add: is_nulls_last_default_def warn_def)
qed

text \<open>The engine \<^verbatim>\<open>made_up_engine\<close>, on an empty log.\<close>

theorem unknown_engine_default_witness:
  "''made_up_engine'' \<notin> set (map fst NULLS_LAST_FOR_ASC_BY_DEFAULT) \<and>
   is_nulls_last_default (Some \<lparr>name = ''made_up_engine''\<rparr>) [] =
     (Inr False,
      [''SQL dialect made_up_engine is not known to sqlakeyset. Assuming the same behaviour as MySQL/SQLite/MSSQL. If any of your sort columns are nullable, you may get results in the wrong order.''])"
proof -
  have h: "name \<lparr>name = ''made_up_engine''\<rparr> \<notin> set (map fst NULLS_LAST_FOR_ASC_BY_DEFAULT)"
    by (simp add: NULLS_LAST_FOR_ASC_BY_DEFAULT_def)
  show ?thesis
    using h unknown_engine_default [OF h, of "[]"]
    by (simp add: unknown_dialect_message_def)
qed

text \<open>
  Claim C3. The claim is that an absent dialect is treated as an unknown engine: false,
  one warning, no error. The function does not do that: with the dialect \<^verbatim>\<open>None\<close>
  the lookup key is \<^verbatim>\<open>None\<close>, the table has no such key, and building the
  message reads \<^verbatim>\<open>dialect.name\<close> of \<^verbatim>\<open>None\<close>. The call raises
  \<^verbatim>\<open>AttributeError\<close> and the log is unchanged.
\<close>

theorem absent_dialect_raises:
  "is_nulls_last_default None ws = (Inl AttributeError, ws)"
  by (simp add: is_nulls_last_default_def dict_get_def dialect_key_def)

section \<open>The nullability check on a descriptor\<close>

text \<open>
  Claim C4. The claim is that the check answers true whenever the nullability metadata
  is missing. The function answers false there: on a descriptor with no
  \<^verbatim>\<open>nullable\<close> attribute the \<^verbatim>\<open>AttributeError\<close> is caught and the function
  falls through to \<^verbatim>\<open>return False\<close>. It also answers false for a descriptor
  declared nullable that has no \<^verbatim>\<open>property\<close>, and true for one declared not
  nullable.
\<close>

theorem missing_nullable_attribute_gives_false:
  "might_be_nullable (Descriptor None None) = Inr False \<and>
   might_be_nullable (Descriptor (Some True) None) = Inr False \<and>
   might_be_nullable (Descriptor (Some False) None) = Inr True"
  by (simp add: might_be_nullable_def nullable_condition_def getattr_def)

section \<open>The terms of one column\<close>

text \<open>
  Claim C5. Whenever the placement resolves to \<open>r\<close> and the bind processor gives a
  value \<open>pv\<close>, the call returns, and the pair \<open>(null, notnull)\<close> it ranks with is
  \<open>(1, 0)\<close> when \<open>r\<close> is nulls-last and \<open>(0, 1)\<close> when it is not: the row-side
  discriminator is the case expression over these two ranks, the target-side
  discriminator is \<open>null\<close> for a processed value \<^verbatim>\<open>None\<close> and \<open>notnull\<close>
  otherwise. The ranks are the same for both directions: the direction \<open>asc\<close> only
  decides which of the two lists comes first.
\<close>

theorem discriminator_ranks:
  assumes "nl = Some r \<or> nl = None \<and> fst (is_nulls_last_default d ws) = Inr r"
    and "bind_processor c v d = Inr pv"
  shows "\<exists>null notnull.
     (null, notnull) = (if r then (1, 0) else (0, 1)) \<and>
     fst (build_comparison c v d nl asc ws) =
       Inr ((if asc then id else prod.swap)
         ([Case [(IsNull (Column c), Literal (PInt null))] (Literal (PInt notnull)),
           Case [(IsNull (Column c), Cast (PStr ''0'') (col_type c))] (Column c)],
          [Literal (PInt (if pv = PNone then null else notnull)),
           (if pv = PNone then Cast (PStr ''0'') (col_type c) else Literal pv)]))"
proof (cases r)
  case True
  with build_comparison_result [OF assms, of asc] show ?thesis by simp
next
  case False
  with build_comparison_result [OF assms, of asc] show ?thesis by simp
qed

text \<open>
  The engine postgresql, no explicit placement, ascending, the reference value
  \<^verbatim>\<open>None\<close>: the ranks are \<open>(1, 0)\<close>.
\<close>

theorem discriminator_ranks_witness:
  "fst (is_nulls_last_default (Some \<lparr>name = ''postgresql''\<rparr>) []) = Inr True \<and>
   bind_processor id_column PNone (Some \<lparr>name = ''postgresql''\<rparr>) = Inr PNone \<and>
   fst (build_comparison id_column PNone (Some \<lparr>name = ''postgresql''\<rparr>) None True []) =
     Inr ([Case [(IsNull (Column id_column), Literal (PInt 1))] (Literal (PInt 0)),
           Case [(IsNull (Column id_column), Cast (PStr ''0'') (col_type id_column))]
             (Column id_column)],
          [Literal (PInt 1), Cast (PStr ''0'') (col_type id_column)])"
proof -
  have d: "fst (is_nulls_last_default (Some \<lparr>name = ''postgresql''\<rparr>) []) = Inr True"
    by (simp add: eval_defs)
  have p: "bind_processor id_column PNone (Some \<lparr>name = ''postgresql''\<rparr>) = Inr PNone"
    by (simp add: eval_defs id_column_def)
  have r: "None = Some True \<or>
      None = None \<and> fst (is_nulls_last_default (Some \<lparr>name = ''postgresql''\<rparr>) []) = Inr True"
    using d by simp
  from discriminator_ranks [OF r p, of True] d p show ?thesis by simp
qed

text \<open>
  Claim C6. For the same column, value, dialect, explicit placement and log, the call
  with \<^verbatim>\<open>ascending=False\<close> gives the result of the call with
  \<^verbatim>\<open>ascending=True\<close> with its two lists exchanged; an exception and the log are
  the same in both.
\<close>

theorem direction_swap:
  "build_comparison c v d nl False ws =
     apfst (map_sum id prod.swap) (build_comparison c v d nl True ws)"
  by (auto simp: build_comparison_def Let_def split: option.splits sum.splits prod.splits)

text \<open>
  Claim C7, as stated, fails. The reference value is tested for \<^verbatim>\<open>None\<close> after
  the bind processor of the column's type has been applied to it. On a column whose
  processor stores \<^verbatim>\<open>None\<close> as 0, under mysql (nulls first, so the rank of null is
  0), the reference value \<^verbatim>\<open>None\<close> gives the target-side pair \<open>[1, 0]\<close>: the rank
  of a value that is not null and the processed value, not the rank of null and the
  placeholder.
\<close>

theorem null_reference_counterexample:
  "build_comparison score_column PNone (Some \<lparr>name = ''mysql''\<rparr>) None True [] =
     (Inr ([Case [(IsNull (Column score_column), Literal (PInt 0))] (Literal (PInt 1)),
            Case [(IsNull (Column score_column), Cast (PStr ''0'') zero_if_none_type)]
              (Column score_column)],
           [Literal (PInt 1), Literal (PInt 0)]), []) \<and>
   [Literal (PInt 1), Literal (PInt 0)] \<noteq>
     [Literal (PInt 0), Cast (PStr ''0'') zero_if_none_type]"
  by (simp add: eval_defs score_column_def zero_if_none_type_def zero_if_none_def)

text \<open>
  Claim C7, amended. In every call that returns and in which the reference value is
  \<^verbatim>\<open>None\<close> after the bind processor of the column's type has been applied (for a
  type with no bind processor: the reference value itself is \<^verbatim>\<open>None\<close>), the
  target-side pair is the rank of null followed by the placeholder
  \<^verbatim>\<open>cast('0', columnexpr.type)\<close>.
\<close>

theorem null_value_encoding:
  assumes "build_comparison c v d nl asc ws = (Inr (col, val), ws')"
    and "nl = Some r \<or> nl = None \<and> fst (is_nulls_last_default d ws) = Inr r"
    and "bind_processor c v d = Inr PNone"
  shows "(if asc then val else col) =
     [Literal (PInt (if r then 1 else 0)), Cast (PStr ''0'') (col_type c)]"
  using build_comparison_returns [OF assms(1,2)] assms(3) by auto

text \<open>
  The engine oracle, a plain column, descending, the reference value \<^verbatim>\<open>None\<close>:
  the target-side pair is the first list returned.
\<close>

theorem null_value_encoding_witness:
  "build_comparison id_column PNone (Some \<lparr>name = ''oracle''\<rparr>) None False [] =
     (Inr ([Literal (PInt 1), Cast (PStr ''0'') (col_type id_column)],
           [Case [(IsNull (Column id_column), Literal (PInt 1))] (Literal (PInt 0)),
            Case [(IsNull (Column id_column), Cast (PStr ''0'') (col_type id_column))]
              (Column id_column)]), []) \<and>
   fst (is_nulls_last_default (Some \<lparr>name = ''oracle''\<rparr>) []) = Inr True \<and>
   bind_processor id_column PNone (Some \<lparr>name = ''oracle''\<rparr>) = Inr PNone"
proof -
  have d: "fst (is_nulls_last_default (Some \<lparr>name = ''oracle''\<rparr>) []) = Inr True"
    by (simp add: eval_defs)
  have p: "bind_processor id_column PNone (Some \<lparr>name = ''oracle''\<rparr>) = Inr PNone"
    by (simp add: eval_defs id_column_def)
  have b: "build_comparison id_column PNone (Some \<lparr>name = ''oracle''\<rparr>) None False [] =
     (Inr ([Literal (PInt 1), Cast (PStr ''0'') (col_type id_column)],
           [Case [(IsNull (Column id_column), Literal (PInt 1))] (Literal (PInt 0)),
            Case [(IsNull (Column id_column), Cast (PStr ''0'') (col_type id_column))]
              (Column id_column)]), [])"
    by (simp add: eval_defs id_column_def)
  have r: "None = Some True \<or>
      None = None \<and> fst (is_nulls_last_default (Some \<lparr>name = ''oracle''\<rparr>) []) = Inr True"
    using d by simp
  from null_value_encoding [OF b r p] b d p show ?thesis by simp
qed

text \<open>
  Claim C9. When the explicit placement \<open>b\<close> is given, the default of the engine is not
  looked up, whatever the dialect is, also \<^verbatim>\<open>None\<close> or an engine the table does not
  know. The whole result is given by \<open>b\<close> and the outcome of the bind processor: the log
  is returned unchanged, an exception is the one of the bind processor, and both pairs of
  a call that returns are built from the ranks of \<open>b\<close> and the processed value. The
  dialect only reaches the bind processor, as its second argument.
\<close>

theorem explicit_override_skips_lookup:
  "build_comparison c v d (Some b) asc ws =
     (case bind_processor c v d of
        Inl e \<Rightarrow> (Inl e, ws)
      | Inr pv \<Rightarrow>
          (Inr ((if asc then id else prod.swap)
             ([Case [(IsNull (Column c), Literal (PInt (if b then 1 else 0)))]
                 (Literal (PInt (if b then 0 else 1))),
               Case [(IsNull (Column c), Cast (PStr ''0'') (col_type c))] (Column c)],
              [Literal (PInt (if pv = PNone then (if b then 1 else 0) else (if b then 0 else 1))),
               (if pv = PNone then Cast (PStr ''0'') (col_type c) else Literal pv)])),
           ws))"
  by (cases "bind_processor c v d"; cases b; cases asc)
    (simp_all add: build_comparison_def Let_def)

text \<open>
  No dialect at all, nulls last given explicitly, the reference value 42: the call
  returns, with an empty log.
\<close>

theorem explicit_override_skips_lookup_witness:
  "build_comparison id_column (PInt 42) None (Some True) True [] =
     (Inr ([Case [(IsNull (Column id_column), Literal (PInt 1))] (Literal (PInt 0)),
            Case [(IsNull (Column id_column), Cast (PStr ''0'') (col_type id_column))]
              (Column id_column)],
           [Literal (PInt 0), Literal (PInt 42)]), [])"
proof -
  have p: "bind_processor id_column (PInt 42) None = Inr (PInt 42)"
    by (simp add: eval_defs id_column_def)
  from explicit_override_skips_lookup [of id_column "PInt 42" None True True "[]"] p
  show ?thesis by simp
qed

text \<open>
  Claim C10. On a column whose type has a bind processor \<open>p\<close>, whenever the placement
  resolves to \<open>r\<close> and \<open>p\<close> gives \<open>pv\<close> on the reference value, the call returns and
  the target-side pair is decided by the processed value \<open>pv\<close>, not by the reference
  value: the rank of null and the placeholder when \<open>pv\<close> is \<^verbatim>\<open>None\<close>, the rank of
  a value that is not null and \<open>pv\<close> itself otherwise. So a reference value
  \<^verbatim>\<open>None\<close> that the processor maps to a value gets the rank of a value that is not
  null.
\<close>

theorem null_check_after_bind_processing:
  assumes "nl = Some r \<or> nl = None \<and> fst (is_nulls_last_default d ws) = Inr r"
    and "process_bind_param (col_type c) = Some p"
    and "p v d = Inr pv"
  shows "\<exists>col val ws'.
     build_comparison c v d nl asc ws = (Inr (col, val), ws') \<and>
     (if asc then val else col) =
       [Literal (PInt (if pv = PNone then (if r then 1 else 0) else (if r then 0 else 1))),
        (if pv = PNone then Cast (PStr ''0'') (col_type c) else Literal pv)]"
proof -
  from assms(2,3) have bp: "bind_processor c v d = Inr pv"
    by (simp add: bind_processor_def)
  obtain res ws' where b: "build_comparison c v d nl asc ws = (res, ws')"
    by (cases "build_comparison c v d nl asc ws")
  with build_comparison_result [OF assms(1) bp, of asc] show ?thesis
    by (cases asc) simp_all
qed

text \<open>
  The engine postgresql (nulls last, so the rank of a value that is not null is 0), the
  column whose processor stores \<^verbatim>\<open>None\<close> as 0, the reference value \<^verbatim>\<open>None\<close>:
  the target-side pair is \<open>[0, 0]\<close>.
\<close>

theorem null_check_after_bind_processing_witness:
  "fst (is_nulls_last_default (Some \<lparr>name = ''postgresql''\<rparr>) []) = Inr True \<and>
   process_bind_param (col_type score_column) = Some zero_if_none \<and>
   zero_if_none PNone (Some \<lparr>name = ''postgresql''\<rparr>) = Inr (PInt 0) \<and>
   build_comparison score_column PNone (Some \<lparr>name = ''postgresql''\<rparr>) None True [] =
     (Inr ([Case [(IsNull (Column score_column), Literal (PInt 1))] (Literal (PInt 0)),
            Case [(IsNull (Column score_column), Cast (PStr ''0'') (col_type score_column))]
              (Column score_column)],
           [Literal (PInt 0), Literal (PInt 0)]), [])"
proof -
  have d: "fst (is_nulls_last_default (Some \<lparr>name = ''postgresql''\<rparr>) []) = Inr True"
    by (simp add: eval_defs)
  have t: "process_bind_param (col_type score_column) = Some zero_if_none"
    by (simp add: score_column_def zero_if_none_type_def)
  have z: "zero_if_none PNone (Some \<lparr>name = ''postgresql''\<rparr>) = Inr (PInt 0)"
    by (simp add: zero_if_none_def)
  have b: "build_comparison score_column PNone (Some \<lparr>name = ''postgresql''\<rparr>) None True [] =
     (Inr ([Case [(IsNull (Column score_column), Literal (PInt 1))] (Literal (PInt 0)),
            Case [(IsNull (Column score_column), Cast (PStr ''0'') (col_type score_column))]
              (Column score_column)],
           [Literal (PInt 0), Literal (PInt 0)]), [])"
    by (simp add: eval_defs score_column_def zero_if_none_type_def zero_if_none_def)
  have r: "None = Some True \<or>
      None = None \<and> fst (is_nulls_last_default (Some \<lparr>name = ''postgresql''\<rparr>) []) = Inr True"
    using d by simp
  from null_check_after_bind_processing [OF r t z, of True] b d t z show ?thesis by simp
qed

end
